theory Spec2Isabelle
  imports Main "HOL-Library.Word" "HOL-Library.Char_ord" "HOL-Library.List_Lexorder"
begin

unbundle bit_operations_syntax

section \<open>The dump downloader \<^verbatim>\<open>hotel_dump.py\<close>\<close>

text \<open>
  The script lists a bucket, picks the greatest folder name under \<^verbatim>\<open>hotels/\<close>,
  downloads every object of that folder that is missing locally into a \<^verbatim>\<open>_tmp\<close>
  file, compares the MD5 of the file with the object's e-tag, and renames the file into
  place. The model below follows the source function by function.

  Modelling decisions:
  \<^item> Python \<^verbatim>\<open>str\<close> keys and paths are \<^typ>\<open>string\<close>, read as their UTF-8 bytes.
    \<^verbatim>\<open>date > latest_date\<close> is the lexicographic order on lists of characters; on
    UTF-8 bytes it is Python's order on strings.
  \<^item> File contents are lists of bytes.
  \<^item> The local file system is a map from path strings to nodes. Two different strings
    are two different files: \<^verbatim>\<open>.\<close>, \<^verbatim>\<open>..\<close>, links and the directory hierarchy are
    not modelled, and \<^verbatim>\<open>os.makedirs\<close> always succeeds.
  \<^item> The bucket is the list of its objects in listing order; a listing with a prefix
    is the sublist of the objects whose key starts with the prefix. Listing itself
    never fails in the model, and the bucket does not change during a run.
  \<^item> Every call that touches the bucket or the disk appends an event to a trace, so
    that "no download", "no verification" and "no remote call" are statements about
    the trace.
  \<^item> An uncaught exception or a failed \<^verbatim>\<open>assert\<close> ends the run: the run returns the
    world as it is at that point together with the error. Assertions are enabled
    (the interpreter does not run with \<^verbatim>\<open>-O\<close>).
  \<^item> Logging, \<^verbatim>\<open>print\<close> and argument parsing are left out.
\<close>

subsection \<open>Data\<close>

type_synonym byte = "8 word"
type_synonym u32 = "32 word"

datatype node = File "byte list" | Dir

datatype event =
    ListObjects string
  | MakeDirs string
  | DownloadFile string string
  | Md5File string
  | Rename string string

datatype error =
    DestinationMissing
  | NoCompleteDump
  | TransferFailed
  | FileError
  | ChecksumMismatch

text \<open>
  An object of the bucket as the script sees it: its key, the e-tag the service reports
  for it, and what \<^verbatim>\<open>download_file\<close> delivers (\<open>None\<close> when the transfer raises).
\<close>

record s3_object =
  key :: string
  e_tag :: string
  body :: "byte list option"

record world =
  fs :: "string \<rightharpoonup> node"
  trace :: "event list"

definition emit :: "event \<Rightarrow> world \<Rightarrow> world" where
  "emit ev w = w\<lparr>trace := trace w @ [ev]\<rparr>"

text \<open>The events a run added to the trace it started with.\<close>

definition new_events :: "world \<Rightarrow> world \<Rightarrow> event list" where
  "new_events w w' = drop (length (trace w)) (trace w')"

subsection \<open>\<^verbatim>\<open>hashlib.md5\<close>: the MD5 digest of RFC 1321\<close>

definition md5_K :: "u32 list" where
  "md5_K =
    [
     0xd76aa478, 0xe8c7b756, 0x242070db, 0xc1bdceee,
     0xf57c0faf, 0x4787c62a, 0xa8304613, 0xfd469501,
     0x698098d8, 0x8b44f7af, 0xffff5bb1, 0x895cd7be,
     0x6b901122, 0xfd987193, 0xa679438e, 0x49b40821,
     0xf61e2562, 0xc040b340, 0x265e5a51, 0xe9b6c7aa,
     0xd62f105d, 0x02441453, 0xd8a1e681, 0xe7d3fbc8,
     0x21e1cde6, 0xc33707d6, 0xf4d50d87, 0x455a14ed,
     0xa9e3e905, 0xfcefa3f8, 0x676f02d9, 0x8d2a4c8a,
     0xfffa3942, 0x8771f681, 0x6d9d6122, 0xfde5380c,
     0xa4beea44, 0x4bdecfa9, 0xf6bb4b60, 0xbebfbc70,
     0x289b7ec6, 0xeaa127fa, 0xd4ef3085, 0x04881d05,
     0xd9d4d039, 0xe6db99e5, 0x1fa27cf8, 0xc4ac5665,
     0xf4292244, 0x432aff97, 0xab9423a7, 0xfc93a039,
     0x655b59c3, 0x8f0ccc92, 0xffeff47d, 0x85845dd1,
     0x6fa87e4f, 0xfe2ce6e0, 0xa3014314, 0x4e0811a1,
     0xf7537e82, 0xbd3af235, 0x2ad7d2bb, 0xeb86d391]"

definition md5_S :: "nat list" where
  "md5_S =
    [
     7, 12, 17, 22, 7, 12, 17, 22, 7, 12, 17, 22, 7, 12, 17, 22,
     5, 9, 14, 20, 5, 9, 14, 20, 5, 9, 14, 20, 5, 9, 14, 20,
     4, 11, 16, 23, 4, 11, 16, 23, 4, 11, 16, 23, 4, 11, 16, 23,
     6, 10, 15, 21, 6, 10, 15, 21, 6, 10, 15, 21, 6, 10, 15, 21]"

definition rotl32 :: "u32 \<Rightarrow> nat \<Rightarrow> u32" where
  "rotl32 x n = push_bit n x OR drop_bit (32 - n) x"

definition md5_F :: "nat \<Rightarrow> u32 \<Rightarrow> u32 \<Rightarrow> u32 \<Rightarrow> u32" where
  "md5_F i b c d =
     (if i < 16 then (b AND c) OR (NOT b AND d)
      else if i < 32 then (d AND b) OR (NOT d AND c)
      else if i < 48 then b XOR c XOR d
      else c XOR (b OR NOT d))"

definition md5_G :: "nat \<Rightarrow> nat" where
  "md5_G i =
     (if i < 16 then i
      else if i < 32 then (5 * i + 1) mod 16
      else if i < 48 then (3 * i + 5) mod 16
      else (7 * i) mod 16)"

type_synonym md5_regs = "u32 \<times> u32 \<times> u32 \<times> u32"

fun md5_round :: "u32 list \<Rightarrow> md5_regs \<Rightarrow> nat \<Rightarrow> md5_regs" where
  "md5_round m (a, b, c, d) i =
     (d, b + rotl32 (a + md5_F i b c d + md5_K ! i + m ! md5_G i) (md5_S ! i), b, c)"

fun le_word :: "byte list \<Rightarrow> u32" where
  "le_word [] = 0"
| "le_word (x # xs) = ucast x OR push_bit 8 (le_word xs)"

fun block_words :: "nat \<Rightarrow> byte list \<Rightarrow> u32 list" where
  "block_words 0 bs = []"
| "block_words (Suc n) bs = le_word (take 4 bs) # block_words n (drop 4 bs)"

definition md5_compress :: "md5_regs \<Rightarrow> byte list \<Rightarrow> md5_regs" where
  "md5_compress h block =
     (case h of (a0, b0, c0, d0) \<Rightarrow>
        (case foldl (md5_round (block_words 16 block)) h [0..<64] of
           (a, b, c, d) \<Rightarrow> (a0 + a, b0 + b, c0 + c, d0 + d)))"

fun md5_blocks :: "nat \<Rightarrow> md5_regs \<Rightarrow> byte list \<Rightarrow> md5_regs" where
  "md5_blocks 0 h bs = h"
| "md5_blocks (Suc n) h bs = md5_blocks n (md5_compress h (take 64 bs)) (drop 64 bs)"

definition le_bytes32 :: "u32 \<Rightarrow> byte list" where
  "le_bytes32 w = map (\<lambda>k. ucast (drop_bit k w)) [0, 8, 16, 24]"

definition le_bytes64 :: "64 word \<Rightarrow> byte list" where
  "le_bytes64 w = map (\<lambda>k. ucast (drop_bit k w)) [0, 8, 16, 24, 32, 40, 48, 56]"

text \<open>Padding: one byte 0x80, zeros up to 56 modulo 64, the length in bits on 64 bits.\<close>

definition md5_pad :: "byte list \<Rightarrow> byte list" where
  "md5_pad msg =
     msg @ [0x80] @ replicate ((119 - length msg mod 64) mod 64) 0
       @ le_bytes64 (8 * of_nat (length msg))"

definition md5_digest :: "byte list \<Rightarrow> byte list" where
  "md5_digest msg =
     (let p = md5_pad msg in
      case md5_blocks (length p div 64) (0x67452301, 0xefcdab89, 0x98badcfe, 0x10325476) p of
        (a, b, c, d) \<Rightarrow> concat (map le_bytes32 [a, b, c, d]))"

definition hex_digit :: "nat \<Rightarrow> char" where
  "hex_digit n = ''0123456789abcdef'' ! n"

definition hex_bytes :: "byte list \<Rightarrow> string" where
  "hex_bytes bs =
     concat (map (\<lambda>b. [hex_digit (unat (drop_bit 4 b)), hex_digit (unat (b AND 15))]) bs)"

definition md5_hex :: "byte list \<Rightarrow> string" where
  "md5_hex msg = hex_bytes (md5_digest msg)"

text \<open>
  The hash object of \<^verbatim>\<open>hashlib\<close>: by the library's contract, what a sequence of
  \<^verbatim>\<open>update\<close> calls has fed is their concatenation, and \<^verbatim>\<open>hexdigest\<close> is the digest
  of it in lower-case hexadecimal. The object is modelled by the bytes fed so far.
\<close>

type_synonym hash_md5 = "byte list"

definition hashlib_md5 :: hash_md5 where
  "hashlib_md5 = []"

definition md5_update :: "hash_md5 \<Rightarrow> byte list \<Rightarrow> hash_md5" where
  "md5_update h chunk = h @ chunk"

definition md5_hexdigest :: "hash_md5 \<Rightarrow> string" where
  "md5_hexdigest h = md5_hex h"

subsection \<open>\<^verbatim>\<open>md5(path)\<close>\<close>

text \<open>
  \<^verbatim>\<open>for chunk in iter(lambda: f.read(4096), b""): hash_md5.update(chunk)\<close>.
  The open file is the list of the bytes not read yet: \<^verbatim>\<open>f.read(4096)\<close> returns the
  next 4096 bytes at most and moves past them, and the loop ends at the first empty
  chunk. \<open>md5_reads\<close> counts the calls of \<^verbatim>\<open>f.read\<close>.
\<close>

function md5_loop :: "hash_md5 \<Rightarrow> byte list \<Rightarrow> hash_md5" where
  "md5_loop h rest =
     (let chunk = take 4096 rest in
      if chunk = [] then h else md5_loop (md5_update h chunk) (drop 4096 rest))"
  by pat_completeness auto
termination
  by (relation "measure (\<lambda>(h, rest). length rest)") auto

function md5_reads :: "byte list \<Rightarrow> nat" where
  "md5_reads rest =
     (let chunk = take 4096 rest in
      if chunk = [] then 1 else 1 + md5_reads (drop 4096 rest))"
  by pat_completeness auto
termination
  by (relation "measure length") auto

declare md5_loop.simps [simp del]
declare md5_reads.simps [simp del]

definition md5 :: "string \<Rightarrow> world \<Rightarrow> world \<times> (error + string)" where
  "md5 path w =
     (let w1 = emit (Md5File path) w in
      case fs w path of
        Some (File content) \<Rightarrow> (w1, Inr (md5_hexdigest (md5_loop hashlib_md5 content)))
      | _ \<Rightarrow> (w1, Inl FileError))"

subsection \<open>The local file system and the bucket\<close>

definition os_path_exists :: "world \<Rightarrow> string \<Rightarrow> bool" where
  "os_path_exists w path = (fs w path \<noteq> None)"

definition os_path_isdir :: "world \<Rightarrow> string \<Rightarrow> bool" where
  "os_path_isdir w path = (fs w path = Some Dir)"

text \<open>
  \<^verbatim>\<open>posixpath.join\<close> for two components: an absolute second component replaces the
  first; otherwise the two are joined with one separator, which is left out after an
  empty first component or one that ends with the separator.
\<close>

definition os_path_join :: "string \<Rightarrow> string \<Rightarrow> string" where
  "os_path_join a b =
     (if take 1 b = ''/'' then b
      else if a = [] \<or> take 1 (rev a) = ''/'' then a @ b
      else a @ ''/'' @ b)"

definition os_makedirs :: "string \<Rightarrow> world \<Rightarrow> world" where
  "os_makedirs path w = emit (MakeDirs path) (w\<lparr>fs := (fs w)(path \<mapsto> Dir)\<rparr>)"

text \<open>
  \<^verbatim>\<open>os.rename(src, dst)\<close>: the node at \<open>src\<close> moves to \<open>dst\<close>, replacing what is
  there; it raises when \<open>src\<close> does not exist.
\<close>

definition os_rename :: "string \<Rightarrow> string \<Rightarrow> world \<Rightarrow> world \<times> error option" where
  "os_rename src dst w =
     (let w1 = emit (Rename src dst) w in
      case fs w src of
        None \<Rightarrow> (w1, Some FileError)
      | Some n \<Rightarrow> (w1\<lparr>fs := (fs w)(src := None, dst \<mapsto> n)\<rparr>, None))"

definition startswith :: "string \<Rightarrow> string \<Rightarrow> bool" where
  "startswith s p = (take (length p) s = p)"

text \<open>\<^verbatim>\<open>bucket.objects.filter(Prefix=prefix)\<close>.\<close>

definition objects_filter :: "string \<Rightarrow> s3_object list \<Rightarrow> world \<Rightarrow> world \<times> s3_object list" where
  "objects_filter prefix bucket w =
     (emit (ListObjects prefix) w, filter (\<lambda>obj. startswith (key obj) prefix) bucket)"

text \<open>
  \<^verbatim>\<open>object.download_file(path)\<close>: writes the delivered bytes to \<open>path\<close>, replacing a
  file that is there; it raises when the transfer fails or \<open>path\<close> is a directory.
\<close>

definition download_file :: "s3_object \<Rightarrow> string \<Rightarrow> world \<Rightarrow> world \<times> error option" where
  "download_file obj path w =
     (let w1 = emit (DownloadFile (key obj) path) w in
      case body obj of
        None \<Rightarrow> (w1, Some TransferFailed)
      | Some content \<Rightarrow>
          if fs w path = Some Dir then (w1, Some TransferFailed)
          else (w1\<lparr>fs := (fs w)(path \<mapsto> File content)\<rparr>, None))"

subsection \<open>\<^verbatim>\<open>download_latest\<close>: finding the latest dump\<close>

text \<open>
  \<^verbatim>\<open>re.match("^hotels/([^/]+)$", key)\<close>, returning group 1: the key is \<^verbatim>\<open>hotels/\<close>
  followed by one or more characters other than \<^verbatim>\<open>/\<close>, up to its end. The group is
  greedy, so it is the whole of what follows \<^verbatim>\<open>hotels/\<close>.
\<close>

definition re_match_hotels :: "string \<Rightarrow> string option" where
  "re_match_hotels k =
     (let rest = drop 7 k in
      if take 7 k = ''hotels/'' \<and> rest \<noteq> [] \<and> CHR ''/'' \<notin> set rest then Some rest else None)"

text \<open>The first loop of \<^verbatim>\<open>download_latest\<close>, with \<^verbatim>\<open>latest_date\<close> as accumulator.\<close>

fun latest_date_loop :: "string option \<Rightarrow> s3_object list \<Rightarrow> string option" where
  "latest_date_loop latest_date [] = latest_date"
| "latest_date_loop latest_date (object_summary # rest) =
     latest_date_loop
       (case re_match_hotels (key object_summary) of
          None \<Rightarrow> latest_date
        | Some date \<Rightarrow>
            (case latest_date of
               None \<Rightarrow> Some date
             | Some l \<Rightarrow> if date > l then Some date else latest_date))
       rest"

subsection \<open>\<^verbatim>\<open>download_latest\<close>: downloading the files of the dump\<close>

text \<open>\<^verbatim>\<open>object_summary.key.split("/")[-1]\<close>: what follows the last \<^verbatim>\<open>/\<close> of the key.\<close>

definition basename :: "string \<Rightarrow> string" where
  "basename k = rev (takeWhile (\<lambda>c. c \<noteq> CHR ''/'') (rev k))"

text \<open>\<^verbatim>\<open>'"{}"'.format(digest)\<close>: the digest between two double quotes.\<close>

definition expected_e_tag :: "string \<Rightarrow> string" where
  "expected_e_tag digest = [CHR 0x22] @ digest @ [CHR 0x22]"

text \<open>The body of the second loop, for one entry of the listing.\<close>

definition sync_entry :: "string \<Rightarrow> s3_object \<Rightarrow> world \<Rightarrow> world \<times> error option" where
  "sync_entry target_folder object_summary w =
     (if basename (key object_summary) = ''done'' then (w, None)
      else
        let local_path = os_path_join target_folder (basename (key object_summary)) in
        if os_path_exists w local_path then (w, None)
        else
          let local_tmp_path = local_path @ ''_tmp'' in
          case download_file object_summary local_tmp_path w of
            (w1, Some e) \<Rightarrow> (w1, Some e)
          | (w1, None) \<Rightarrow>
              (case md5 local_tmp_path w1 of
                 (w2, Inl e) \<Rightarrow> (w2, Some e)
               | (w2, Inr digest) \<Rightarrow>
                   if expected_e_tag digest = e_tag object_summary
                   then os_rename local_tmp_path local_path w2
                   else (w2, Some ChecksumMismatch)))"

fun sync_loop :: "string \<Rightarrow> s3_object list \<Rightarrow> world \<Rightarrow> world \<times> error option" where
  "sync_loop target_folder [] w = (w, None)"
| "sync_loop target_folder (object_summary # rest) w =
     (case sync_entry target_folder object_summary w of
        (w1, Some e) \<Rightarrow> (w1, Some e)
      | (w1, None) \<Rightarrow> sync_loop target_folder rest w1)"

definition target_folder_of :: "string \<Rightarrow> string \<Rightarrow> string" where
  "target_folder_of dest_folder latest_date =
     os_path_join (os_path_join dest_folder ''hotels'') latest_date"

definition download_latest :: "string \<Rightarrow> s3_object list \<Rightarrow> world \<Rightarrow> world \<times> error option" where
  "download_latest dest_folder bucket w =
     (case objects_filter ''hotels/'' bucket w of
        (w1, listing) \<Rightarrow>
          (case latest_date_loop None listing of
             None \<Rightarrow> (w1, Some NoCompleteDump)
           | Some latest_date \<Rightarrow>
               let target_folder = target_folder_of dest_folder latest_date;
                   w2 = (if \<not> os_path_exists w1 target_folder
                         then os_makedirs target_folder w1 else w1)
               in case objects_filter (''hotels/'' @ latest_date) bucket w2 of
                    (w3, files) \<Rightarrow> sync_loop target_folder files w3))"

subsection \<open>The entry point\<close>

definition main :: "string \<Rightarrow> s3_object list \<Rightarrow> world \<Rightarrow> world \<times> error option" where
  "main dest_folder bucket w =
     (if os_path_exists w dest_folder \<and> os_path_isdir w dest_folder
      then download_latest dest_folder bucket w
      else (w, Some DestinationMissing))"

subsection \<open>Notions of the specification and example inputs\<close>

text \<open>
  The snapshot tokens a listing presents: the tokens \<open>t\<close>, one non-empty path segment,
  such that \<^verbatim>\<open>hotels/t\<close> is a key of the bucket.
\<close>

definition snapshot_tokens :: "s3_object list \<Rightarrow> string set" where
  "snapshot_tokens bucket =
     {t. t \<noteq> [] \<and> CHR ''/'' \<notin> set t \<and> (\<exists>obj \<in> set bucket. key obj = ''hotels/'' @ t)}"

text \<open>The e-tag of an object with no bytes: the MD5 of the empty string, in quotes.\<close>

definition empty_e_tag :: string where
  "empty_e_tag = CHR 0x22 # ''d41d8cd98f00b204e9800998ecf8427e'' @ [CHR 0x22]"

definition empty_object :: "string \<Rightarrow> s3_object" where
  "empty_object k = \<lparr>key = k, e_tag = empty_e_tag, body = Some []\<rparr>"

text \<open>
  Scenario A of the specification: folder \<^verbatim>\<open>20230101\<close> has its \<^verbatim>\<open>done\<close> marker,
  folder \<^verbatim>\<open>20230202\<close> has files and no marker.
\<close>

definition scenario_a :: "s3_object list" where
  "scenario_a =
     [empty_object ''hotels/20230101'',
      empty_object ''hotels/20230101/done'',
      empty_object ''hotels/20230101/rooms.json'',
      empty_object ''hotels/20230202'',
      empty_object ''hotels/20230202/rooms.json'']"

text \<open>A disk that holds the destination folder \<^verbatim>\<open>/data\<close> and nothing else.\<close>

definition fresh_disk :: world where
  "fresh_disk = \<lparr>fs = [''/data'' \<mapsto> Dir], trace = []\<rparr>"

text \<open>A complete dump: the folder's own key, its marker and one data file.\<close>

definition complete_dump :: "s3_object list" where
  "complete_dump =
     [empty_object ''hotels/20230101'',
      empty_object ''hotels/20230101/done'',
      empty_object ''hotels/20230101/rooms.json'']"

text \<open>
  Scenario C of the specification: the e-tag of \<^verbatim>\<open>reviews.json\<close> is not the MD5 of
  what the download delivers.
\<close>

definition wrong_e_tag :: string where
  "wrong_e_tag = CHR 0x22 # ''00000000000000000000000000000000'' @ [CHR 0x22]"

definition corrupt_reviews :: s3_object where
  "corrupt_reviews =
     \<lparr>key = ''hotels/20230101/reviews.json'', e_tag = wrong_e_tag, body = Some []\<rparr>"

definition scenario_c :: "s3_object list" where
  "scenario_c = [empty_object ''hotels/20230101'', corrupt_reviews]"

text \<open>The local names of an entry: \<^verbatim>\<open>local_path\<close> and \<^verbatim>\<open>local_tmp_path\<close> of the loop.\<close>

definition local_path_of :: "string \<Rightarrow> s3_object \<Rightarrow> string" where
  "local_path_of target_folder obj = os_path_join target_folder (basename (key obj))"

definition local_tmp_path_of :: "string \<Rightarrow> s3_object \<Rightarrow> string" where
  "local_tmp_path_of target_folder obj = local_path_of target_folder obj @ ''_tmp''"

text \<open>Two different files of 64 bytes (they differ at offsets 35 and 55).\<close>

definition collision_a :: "byte list" where
  "collision_a =
     [
      0x4d, 0xc9, 0x68, 0xff, 0x0e, 0xe3, 0x5c, 0x20, 0x95, 0x72, 0xd4, 0x77, 0x7b, 0x72, 0x15, 0x87,
      0xd3, 0x6f, 0xa7, 0xb2, 0x1b, 0xdc, 0x56, 0xb7, 0x4a, 0x3d, 0xc0, 0x78, 0x3e, 0x7b, 0x95, 0x18,
      0xaf, 0xbf, 0xa2, 0x00, 0xa8, 0x28, 0x4b, 0xf3, 0x6e, 0x8e, 0x4b, 0x55, 0xb3, 0x5f, 0x42, 0x75,
      0x93, 0xd8, 0x49, 0x67, 0x6d, 0xa0, 0xd1, 0x55, 0x5d, 0x83, 0x60, 0xfb, 0x5f, 0x07, 0xfe, 0xa2]"

definition collision_b :: "byte list" where
  "collision_b =
     [
      0x4d, 0xc9, 0x68, 0xff, 0x0e, 0xe3, 0x5c, 0x20, 0x95, 0x72, 0xd4, 0x77, 0x7b, 0x72, 0x15, 0x87,
      0xd3, 0x6f, 0xa7, 0xb2, 0x1b, 0xdc, 0x56, 0xb7, 0x4a, 0x3d, 0xc0, 0x78, 0x3e, 0x7b, 0x95, 0x18,
      0xaf, 0xbf, 0xa2, 0x02, 0xa8, 0x28, 0x4b, 0xf3, 0x6e, 0x8e, 0x4b, 0x55, 0xb3, 0x5f, 0x42, 0x75,
      0x93, 0xd8, 0x49, 0x67, 0x6d, 0xa0, 0xd1, 0xd5, 0x5d, 0x83, 0x60, 0xfb, 0x5f, 0x07, 0xfe, 0xa2]"

text \<open>
  A dump with two data files, \<^verbatim>\<open>rooms.json\<close> and \<^verbatim>\<open>rooms.json_tmp\<close> (one byte,
  with its MD5 as e-tag), and the same dump when the e-tag of \<^verbatim>\<open>rooms.json\<close> does not
  match what the download delivers.
\<close>

definition rooms_tmp_object :: s3_object where
  "rooms_tmp_object =
     \<lparr>key = ''hotels/20230101/rooms.json_tmp'',
      e_tag = CHR 0x22 # ''d95679752134a2d9eb61dbd7b91c4bcc'' @ [CHR 0x22],
      body = Some [0x6f]\<rparr>"

definition corrupt_rooms :: s3_object where
  "corrupt_rooms =
     \<lparr>key = ''hotels/20230101/rooms.json'', e_tag = wrong_e_tag, body = Some []\<rparr>"

definition clash_dump :: "s3_object list" where
  "clash_dump =
     [empty_object ''hotels/20230101'',
      empty_object ''hotels/20230101/rooms.json'',
      rooms_tmp_object]"

definition clash_dump_corrupt :: "s3_object list" where
  "clash_dump_corrupt =
     [empty_object ''hotels/20230101'', corrupt_rooms, rooms_tmp_object]"

text \<open>The disk an aborted run over \<open>clash_dump_corrupt\<close> leaves behind.\<close>

definition interrupted_disk :: world where
  "interrupted_disk =
     \<lparr>fs = [''/data'' \<mapsto> Dir, ''/data/hotels/20230101'' \<mapsto> Dir,
             ''/data/hotels/20230101/20230101'' \<mapsto> File [],
             ''/data/hotels/20230101/rooms.json_tmp'' \<mapsto> File []],
      trace = []\<rparr>"

text \<open>A disk that holds a verified copy of \<^verbatim>\<open>rooms.json_tmp\<close> and no \<^verbatim>\<open>rooms.json\<close>.\<close>

definition partial_disk :: world where
  "partial_disk =
     \<lparr>fs = [''/data'' \<mapsto> Dir, ''/data/hotels/20230101'' \<mapsto> Dir,
             ''/data/hotels/20230101/20230101'' \<mapsto> File [],
             ''/data/hotels/20230101/rooms.json_tmp'' \<mapsto> File [0x6f]],
      trace = []\<rparr>"

section \<open>Properties\<close>

subsection \<open>The streaming hash\<close>

lemma md5_loop_append: "md5_loop h content = h @ content"
proof (induction h content rule: md5_loop.induct)
  case (1 h rest)
  show ?case
  proof (cases "take 4096 rest = []")
    case True
    then have "rest = []" by simp
    then show ?thesis by (simp add: md5_loop.simps [of h])
  next
    case False
    then have "md5_loop h rest = md5_loop (md5_update h (take 4096 rest)) (drop 4096 rest)"
      by (simp add: md5_loop.simps [of h rest])
    also have "\<dots> = md5_update h (take 4096 rest) @ drop 4096 rest"
      using "1.IH" [OF refl False] .
    finally show ?thesis by (simp add: md5_update_def)
  qed
qed

lemma chunk_count:
  assumes "0 < (n::nat)"
  shows "(n - 4096 + 4095) div 4096 + 1 = (n + 4095) div 4096"
proof (cases "4096 \<le> n")
  case True
  then obtain m where n: "n = m + 4096"
    by (metis add.commute le_Suc_ex)
  have "(m + 4095 + 4096) div 4096 = (m + 4095) div 4096 + 1"
    by (rule div_add_self2) simp
  then show ?thesis by (simp add: n add.commute add.left_commute)
next
  case False
  then have "n - 4096 = 0" by simp
  moreover have "(n + 4095) div 4096 = 1"
    using assms False by (intro div_nat_eqI) simp_all
  ultimately show ?thesis by simp
qed

lemma md5_reads_count: "md5_reads content = (length content + 4095) div 4096 + 1"
proof (induction content rule: md5_reads.induct)
  case (1 rest)
  show ?case
  proof (cases "take 4096 rest = []")
    case True
    then have "rest = []" by simp
    then show ?thesis by (simp add: md5_reads.simps [of "[]"])
  next
    case False
    then have len: "0 < length rest" by auto
    have "md5_reads rest = 1 + md5_reads (drop 4096 rest)"
      using False by (simp add: md5_reads.simps [of rest])
    also have "\<dots> = 1 + ((length rest - 4096 + 4095) div 4096 + 1)"
      using "1.IH" [OF refl False] by simp
    also have "\<dots> = (length rest + 4095) div 4096 + 1"
      using chunk_count [OF len] by simp
    finally show ?thesis .
  qed
qed

lemma md5_of_file:
  "fs w path = Some (File content) \<Longrightarrow>
   md5 path w = (emit (Md5File path) w, Inr (md5_hex content))"
  by (simp add: md5_def md5_loop_append hashlib_md5_def md5_hexdigest_def)

lemma md5_hex_empty: "md5_hex [] = ''d41d8cd98f00b204e9800998ecf8427e''"
  by code_simp

text \<open>
  C8. The loop of \<open>md5\<close> is a total function, so it returns for every file content. It
  feeds the hash object exactly the content of the file, after one call of \<^verbatim>\<open>f.read\<close>
  for each chunk of 4096 bytes, one for a last shorter chunk, and the final empty read;
  this covers the empty file (one read) and files longer than one chunk. The value
  \<open>md5\<close> returns is the MD5 of the content in hexadecimal: it depends on the content
  alone, so two runs over the same content, at any path and in any state of the rest of
  the disk, return the same hash.
\<close>

theorem md5_terminates_deterministic:
  "md5_loop hashlib_md5 content = content
   \<and> md5_reads content = (length content + 4095) div 4096 + 1
   \<and> (fs w path = Some (File content) \<and> fs w' path' = Some (File content) \<longrightarrow>
        snd (md5 path w) = Inr (md5_hex content) \<and> snd (md5 path' w') = snd (md5 path w))"
  by (simp add: md5_loop_append hashlib_md5_def md5_reads_count md5_of_file)

theorem md5_terminates_deterministic_witness:
  "md5_reads [] = 1
   \<and> md5_reads (replicate 4097 0) = 3
   \<and> snd (md5 ''a'' \<lparr>fs = [''a'' \<mapsto> File []], trace = []\<rparr>)
       = Inr ''d41d8cd98f00b204e9800998ecf8427e''
   \<and> snd (md5 ''b'' \<lparr>fs = [''b'' \<mapsto> File []], trace = [Md5File ''a'']\<rparr>)
       = snd (md5 ''a'' \<lparr>fs = [''a'' \<mapsto> File []], trace = []\<rparr>)"
  using md5_terminates_deterministic
          [of "[]" "\<lparr>fs = [''a'' \<mapsto> File []], trace = []\<rparr>" "''a''"
              "\<lparr>fs = [''b'' \<mapsto> File []], trace = [Md5File ''a'']\<rparr>" "''b''"]
        md5_terminates_deterministic [of "replicate 4097 0"]
        md5_hex_empty
  by simp

subsection \<open>Finding the latest dump\<close>

lemma re_match_hotels_Some:
  "re_match_hotels k = Some t \<longleftrightarrow> k = ''hotels/'' @ t \<and> t \<noteq> [] \<and> CHR ''/'' \<notin> set t"
proof
  assume m: "re_match_hotels k = Some t"
  then have a: "take 7 k = ''hotels/''" and b: "drop 7 k = t"
    and c: "t \<noteq> []" "CHR ''/'' \<notin> set t"
    by (auto simp: re_match_hotels_def Let_def split: if_splits)
  have "k = take 7 k @ drop 7 k" by simp
  with a b have "k = ''hotels/'' @ t" by simp
  with c show "k = ''hotels/'' @ t \<and> t \<noteq> [] \<and> CHR ''/'' \<notin> set t" by simp
next
  assume "k = ''hotels/'' @ t \<and> t \<noteq> [] \<and> CHR ''/'' \<notin> set t"
  then show "re_match_hotels k = Some t"
    by (simp add: re_match_hotels_def)
qed

lemma snapshot_tokens_iff:
  "t \<in> snapshot_tokens bucket \<longleftrightarrow> (\<exists>obj \<in> set bucket. re_match_hotels (key obj) = Some t)"
  unfolding snapshot_tokens_def mem_Collect_eq re_match_hotels_Some
  by blast

lemma re_match_hotels_drop: "re_match_hotels k = Some t \<Longrightarrow> t = drop 7 k"
  by (auto simp: re_match_hotels_def Let_def split: if_splits)

lemma finite_snapshot_tokens: "finite (snapshot_tokens bucket)"
proof -
  have "snapshot_tokens bucket \<subseteq> (\<lambda>obj. drop 7 (key obj)) ` set bucket"
  proof
    fix t assume "t \<in> snapshot_tokens bucket"
    then obtain obj where "obj \<in> set bucket" "re_match_hotels (key obj) = Some t"
      unfolding snapshot_tokens_iff by blast
    then show "t \<in> (\<lambda>obj. drop 7 (key obj)) ` set bucket"
      using re_match_hotels_drop by blast
  qed
  then show ?thesis by (rule finite_subset) simp
qed

lemma snapshot_tokens_Nil: "snapshot_tokens [] = {}"
  by (simp add: snapshot_tokens_def)

lemma snapshot_tokens_Cons:
  "snapshot_tokens (obj # bucket) = set_option (re_match_hotels (key obj)) \<union> snapshot_tokens bucket"
proof (rule set_eqI)
  fix t
  show "t \<in> snapshot_tokens (obj # bucket)
        \<longleftrightarrow> t \<in> set_option (re_match_hotels (key obj)) \<union> snapshot_tokens bucket"
    unfolding Un_iff snapshot_tokens_iff by (cases "re_match_hotels (key obj)") auto
qed

lemma Max_insert_max:
  assumes "finite T"
  shows "Max (insert (max l d) T) = Max (insert (l::string) (insert d T))"
proof (cases "T = {}")
  case True
  then show ?thesis by simp
next
  case False
  with assms show ?thesis by (simp add: max.assoc)
qed

lemma latest_date_loop_max:
  "latest_date_loop acc objs =
     (if set_option acc \<union> snapshot_tokens objs = {} then None
      else Some (Max (set_option acc \<union> snapshot_tokens objs)))"
proof (induction objs arbitrary: acc)
  case Nil
  show ?case by (cases acc) (simp_all add: snapshot_tokens_Nil)
next
  case (Cons obj objs)
  define T where "T = snapshot_tokens objs"
  have fin: "finite T" unfolding T_def by (rule finite_snapshot_tokens)
  show ?case
  proof (cases "re_match_hotels (key obj)")
    case None
    then show ?thesis by (simp add: Cons.IH snapshot_tokens_Cons)
  next
    case (Some d)
    show ?thesis
    proof (cases acc)
      case None
      with Some show ?thesis by (simp add: Cons.IH snapshot_tokens_Cons)
    next
      case (Some l)
      have step: "(if d > l then Some d else Some l) = Some (max l d)"
        by (auto simp: max_def)
      have "latest_date_loop acc (obj # objs) = latest_date_loop (Some (max l d)) objs"
        using \<open>re_match_hotels (key obj) = Some d\<close> Some step by simp
      also have "\<dots> = Some (Max (insert (max l d) T))"
        by (simp add: Cons.IH T_def)
      also have "\<dots> = Some (Max (insert l (insert d T)))"
        using Max_insert_max [OF fin] by simp
      finally show ?thesis
        using \<open>re_match_hotels (key obj) = Some d\<close> Some
        by (simp add: snapshot_tokens_Cons T_def insert_commute)
    qed
  qed
qed

lemma startswith_append: "startswith (p @ t) p"
  by (simp add: startswith_def)

lemma filter_hotels_tokens:
  "snapshot_tokens (filter (\<lambda>obj. startswith (key obj) ''hotels/'') bucket) = snapshot_tokens bucket"
proof (rule set_eqI)
  fix t
  have "re_match_hotels k = Some t \<Longrightarrow> startswith k ''hotels/''" for k
    unfolding re_match_hotels_Some using startswith_append [of "''hotels/''" t] by simp
  then show "t \<in> snapshot_tokens (filter (\<lambda>obj. startswith (key obj) ''hotels/'') bucket)
        \<longleftrightarrow> t \<in> snapshot_tokens bucket"
    unfolding snapshot_tokens_iff by auto
qed

lemma latest_of_listing:
  "latest_date_loop None (snd (objects_filter ''hotels/'' bucket w)) =
     (if snapshot_tokens bucket = {} then None else Some (Max (snapshot_tokens bucket)))"
  by (simp add: objects_filter_def latest_date_loop_max filter_hotels_tokens)

lemma scenario_a_latest:
  "latest_date_loop None (snd (objects_filter ''hotels/'' scenario_a w)) = Some ''20230202''"
  by (simp add: scenario_a_def empty_object_def objects_filter_def startswith_def
        re_match_hotels_def)

text \<open>
  C1. The first loop of \<open>download_latest\<close>, run over the listing with prefix
  \<^verbatim>\<open>hotels/\<close>, returns the greatest snapshot token of the bucket in the order of
  strings, and nothing when the bucket presents no token; in that case
  \<open>download_latest\<close> stops on the failed assertion "No complete dump folder found!"
  right after the listing, with no other effect.
\<close>

theorem resolver_returns_max:
  "latest_date_loop None (snd (objects_filter ''hotels/'' bucket w)) =
     (if snapshot_tokens bucket = {} then None else Some (Max (snapshot_tokens bucket)))
   \<and> (snapshot_tokens bucket = {} \<longrightarrow>
        download_latest dest_folder bucket w
          = (emit (ListObjects ''hotels/'') w, Some NoCompleteDump))"
proof (intro conjI impI)
  show a: "latest_date_loop None (snd (objects_filter ''hotels/'' bucket w)) =
     (if snapshot_tokens bucket = {} then None else Some (Max (snapshot_tokens bucket)))"
    by (rule latest_of_listing)
  assume "snapshot_tokens bucket = {}"
  with a have "latest_date_loop None (snd (objects_filter ''hotels/'' bucket w)) = None"
    by simp
  then show "download_latest dest_folder bucket w
          = (emit (ListObjects ''hotels/'') w, Some NoCompleteDump)"
    by (simp add: download_latest_def objects_filter_def)
qed

theorem resolver_returns_max_witness:
  "snapshot_tokens scenario_a \<noteq> {}
   \<and> latest_date_loop None (snd (objects_filter ''hotels/'' scenario_a fresh_disk))
       = Some ''20230202''
   \<and> Max (snapshot_tokens scenario_a) = ''20230202''
   \<and> snapshot_tokens [] = {}
   \<and> download_latest ''/data'' [] fresh_disk
       = (emit (ListObjects ''hotels/'') fresh_disk, Some NoCompleteDump)"
  using resolver_returns_max [of scenario_a fresh_disk "''/data''"]
        resolver_returns_max [of "[]" fresh_disk "''/data''"]
        scenario_a_latest [of fresh_disk]
  by (simp add: snapshot_tokens_Nil split: if_splits)

text \<open>
  C2. The claim asks the resolver to ignore a folder that has no \<^verbatim>\<open>done\<close> marker. On
  scenario A the code returns \<^verbatim>\<open>20230202\<close>, the folder without marker: the pattern
  \<^verbatim>\<open>^hotels/([^/]+)$\<close> never looks at a key \<^verbatim>\<open>hotels/<token>/done\<close>.
\<close>

theorem resolver_selects_unmarked_folder:
  "latest_date_loop None (snd (objects_filter ''hotels/'' scenario_a fresh_disk))
     = Some ''20230202''
   \<and> ''hotels/20230202/done'' \<notin> key ` set scenario_a
   \<and> ''hotels/20230101/done'' \<in> key ` set scenario_a"
proof -
  have "''hotels/20230202/done'' \<notin> key ` set scenario_a
        \<and> ''hotels/20230101/done'' \<in> key ` set scenario_a"
    by (simp add: scenario_a_def empty_object_def)
  then show ?thesis using scenario_a_latest [of fresh_disk] by blast
qed

subsection \<open>The entry point\<close>

text \<open>
  C6. When the destination folder does not exist or is not a directory, \<open>main\<close> fails
  with the configuration error and leaves the world as it is: no event is recorded, so no
  listing and no download took place.
\<close>

theorem destination_checked_first:
  "\<not> (os_path_exists w dest_folder \<and> os_path_isdir w dest_folder) \<Longrightarrow>
   main dest_folder bucket w = (w, Some DestinationMissing)
   \<and> new_events w (fst (main dest_folder bucket w)) = []"
  by (auto simp: main_def new_events_def)

theorem destination_checked_first_witness:
  "\<not> (os_path_exists fresh_disk ''/nowhere'' \<and> os_path_isdir fresh_disk ''/nowhere'')
   \<and> main ''/nowhere'' scenario_a fresh_disk = (fresh_disk, Some DestinationMissing)
   \<and> new_events fresh_disk (fst (main ''/nowhere'' scenario_a fresh_disk)) = []
   \<and> \<not> (os_path_exists \<lparr>fs = [''/data'' \<mapsto> File []], trace = []\<rparr> ''/data''
          \<and> os_path_isdir \<lparr>fs = [''/data'' \<mapsto> File []], trace = []\<rparr> ''/data'')
   \<and> main ''/data'' scenario_a \<lparr>fs = [''/data'' \<mapsto> File []], trace = []\<rparr>
       = (\<lparr>fs = [''/data'' \<mapsto> File []], trace = []\<rparr>, Some DestinationMissing)"
proof -
  have h: "\<not> (os_path_exists fresh_disk ''/nowhere'' \<and> os_path_isdir fresh_disk ''/nowhere'')"
    by (simp add: os_path_exists_def fresh_disk_def)
  have h2: "\<not> (os_path_exists \<lparr>fs = [''/data'' \<mapsto> File []], trace = []\<rparr> ''/data''
          \<and> os_path_isdir \<lparr>fs = [''/data'' \<mapsto> File []], trace = []\<rparr> ''/data'')"
    by (simp add: os_path_isdir_def)
  show ?thesis
    using h h2 destination_checked_first [OF h, of scenario_a]
      destination_checked_first [OF h2, of scenario_a]
    by blast
qed

subsection \<open>The download loop\<close>

lemmas run_simps =
  download_latest_def objects_filter_def startswith_def emit_def target_folder_of_def
  os_path_join_def os_path_exists_def os_makedirs_def sync_entry_def basename_def
  download_file_def md5_def md5_loop_append hashlib_md5_def md5_hexdigest_def md5_hex_empty
  expected_e_tag_def os_rename_def re_match_hotels_def empty_object_def empty_e_tag_def
  fresh_disk_def wrong_e_tag_def Let_def

lemma sync_entry_done:
  "basename (key obj) = ''done'' \<Longrightarrow> sync_entry target obj w = (w, None)"
  by (simp add: sync_entry_def)

lemma sync_entry_exists:
  "os_path_exists w (os_path_join target (basename (key obj))) \<Longrightarrow>
   sync_entry target obj w = (w, None)"
  by (simp add: sync_entry_def)

text \<open>What one iteration adds to the trace: nothing, or the calls for this entry.\<close>

lemma sync_entry_trace:
  assumes "sync_entry target obj w = (w', r)"
  shows "\<exists>evs. trace w' = trace w @ evs \<and>
           (evs \<noteq> [] \<longrightarrow> basename (key obj) \<noteq> ''done''
              \<and> \<not> os_path_exists w (os_path_join target (basename (key obj)))) \<and>
           set evs \<subseteq> {DownloadFile (key obj) (os_path_join target (basename (key obj)) @ ''_tmp''),
                      Md5File (os_path_join target (basename (key obj)) @ ''_tmp''),
                      Rename (os_path_join target (basename (key obj)) @ ''_tmp'')
                             (os_path_join target (basename (key obj)))}"
  using assms
  by (auto simp: sync_entry_def Let_def download_file_def md5_def os_rename_def emit_def
           split: if_splits option.splits prod.splits sum.splits node.splits)

lemma sync_loop_trace:
  assumes "sync_loop target objs w = (w', r)"
  shows "\<exists>evs. trace w' = trace w @ evs \<and>
           (\<forall>k p. DownloadFile k p \<in> set evs \<longrightarrow> basename k \<noteq> ''done'')"
  using assms
proof (induction objs arbitrary: w)
  case Nil
  then show ?case by simp
next
  case (Cons obj objs)
  obtain w1 r1 where e: "sync_entry target obj w = (w1, r1)" by (cases "sync_entry target obj w")
  from sync_entry_trace [OF e] obtain evs1 where
    t1: "trace w1 = trace w @ evs1" and
    d1: "evs1 \<noteq> [] \<longrightarrow> basename (key obj) \<noteq> ''done''" and
    s1: "set evs1 \<subseteq> {DownloadFile (key obj) (os_path_join target (basename (key obj)) @ ''_tmp''),
                      Md5File (os_path_join target (basename (key obj)) @ ''_tmp''),
                      Rename (os_path_join target (basename (key obj)) @ ''_tmp'')
                             (os_path_join target (basename (key obj)))}"
    by blast
  have ok1: "\<forall>k p. DownloadFile k p \<in> set evs1 \<longrightarrow> basename k \<noteq> ''done''"
    using d1 s1 by auto
  show ?case
  proof (cases r1)
    case (Some err)
    with Cons.prems e have "w' = w1" by simp
    with t1 ok1 show ?thesis by blast
  next
    case None
    with Cons.prems e have "sync_loop target objs w1 = (w', r)" by simp
    from Cons.IH [OF this] obtain evs2 where
      t2: "trace w' = trace w1 @ evs2" and
      ok2: "\<forall>k p. DownloadFile k p \<in> set evs2 \<longrightarrow> basename k \<noteq> ''done''"
      by blast
    have "trace w' = trace w @ (evs1 @ evs2)" using t1 t2 by simp
    moreover have "\<forall>k p. DownloadFile k p \<in> set (evs1 @ evs2) \<longrightarrow> basename k \<noteq> ''done''"
      using ok1 ok2 by auto
    ultimately show ?thesis by blast
  qed
qed

lemma download_latest_Some:
  "latest_date_loop None (snd (objects_filter ''hotels/'' bucket w)) = Some latest_date \<Longrightarrow>
   download_latest dest_folder bucket w =
     sync_loop (target_folder_of dest_folder latest_date)
       (snd (objects_filter (''hotels/'' @ latest_date) bucket w))
       (emit (ListObjects (''hotels/'' @ latest_date))
          (if \<not> os_path_exists (emit (ListObjects ''hotels/'') w)
                   (target_folder_of dest_folder latest_date)
           then os_makedirs (target_folder_of dest_folder latest_date)
                  (emit (ListObjects ''hotels/'') w)
           else emit (ListObjects ''hotels/'') w))"
  by (simp add: download_latest_def objects_filter_def Let_def)

lemma download_latest_trace:
  assumes "download_latest dest_folder bucket w = (w', r)"
  shows "\<exists>evs. trace w' = trace w @ evs \<and>
           (\<forall>k p. DownloadFile k p \<in> set evs \<longrightarrow> basename k \<noteq> ''done'')"
proof (cases "latest_date_loop None (snd (objects_filter ''hotels/'' bucket w))")
  case None
  with assms have "w' = emit (ListObjects ''hotels/'') w"
    by (simp add: download_latest_def objects_filter_def)
  then have "trace w' = trace w @ [ListObjects ''hotels/'']" by (simp add: emit_def)
  then show ?thesis by auto
next
  case (Some latest_date)
  define target where "target = target_folder_of dest_folder latest_date"
  define w1 where "w1 = emit (ListObjects ''hotels/'') w"
  define w2 where "w2 = (if \<not> os_path_exists w1 target then os_makedirs target w1 else w1)"
  define w3 where "w3 = emit (ListObjects (''hotels/'' @ latest_date)) w2"
  define files where "files = snd (objects_filter (''hotels/'' @ latest_date) bucket w2)"
  have run: "sync_loop target files w3 = (w', r)"
    using assms unfolding download_latest_Some [OF Some] target_def w1_def w2_def w3_def files_def
    by (simp add: objects_filter_def)
  define pre where "pre =
     (if \<not> os_path_exists w1 target
      then [ListObjects ''hotels/'', MakeDirs target, ListObjects (''hotels/'' @ latest_date)]
      else [ListObjects ''hotels/'', ListObjects (''hotels/'' @ latest_date)])"
  have pre: "trace w3 = trace w @ pre"
    by (simp add: pre_def w3_def w2_def w1_def emit_def os_makedirs_def)
  have nodl: "\<forall>k p. DownloadFile k p \<notin> set pre"
    by (simp add: pre_def)
  from sync_loop_trace [OF run] obtain evs where
    t: "trace w' = trace w3 @ evs" and
    ok: "\<forall>k p. DownloadFile k p \<in> set evs \<longrightarrow> basename k \<noteq> ''done''"
    by blast
  have "trace w' = trace w @ (pre @ evs)" using t pre by simp
  moreover have "\<forall>k p. DownloadFile k p \<in> set (pre @ evs) \<longrightarrow> basename k \<noteq> ''done''"
    using nodl ok by auto
  ultimately show ?thesis by blast
qed

lemma run_complete_dump:
  "download_latest ''/data'' complete_dump fresh_disk =
     (\<lparr>fs = [''/data'' \<mapsto> Dir, ''/data/hotels/20230101'' \<mapsto> Dir,
              ''/data/hotels/20230101/20230101'' \<mapsto> File [],
              ''/data/hotels/20230101/rooms.json'' \<mapsto> File []],
       trace = [ListObjects ''hotels/'', MakeDirs ''/data/hotels/20230101'',
                ListObjects ''hotels/20230101'',
                DownloadFile ''hotels/20230101'' ''/data/hotels/20230101/20230101_tmp'',
                Md5File ''/data/hotels/20230101/20230101_tmp'',
                Rename ''/data/hotels/20230101/20230101_tmp'' ''/data/hotels/20230101/20230101'',
                DownloadFile ''hotels/20230101/rooms.json'' ''/data/hotels/20230101/rooms.json_tmp'',
                Md5File ''/data/hotels/20230101/rooms.json_tmp'',
                Rename ''/data/hotels/20230101/rooms.json_tmp'' ''/data/hotels/20230101/rooms.json'']\<rparr>,
      None)"
  by (simp add: run_simps complete_dump_def)

text \<open>
  C7. An entry whose basename is \<^verbatim>\<open>done\<close> is skipped by the loop body with no effect at
  all, and in a whole run of \<open>download_latest\<close> every download that is performed is for
  a key whose basename is not \<^verbatim>\<open>done\<close>.
\<close>

theorem done_marker_not_downloaded:
  "(basename (key obj) = ''done'' \<longrightarrow> sync_entry target obj w = (w, None))
   \<and> (DownloadFile k p \<in> set (new_events w (fst (download_latest dest_folder bucket w)))
        \<longrightarrow> basename k \<noteq> ''done'')"
proof (intro conjI impI)
  assume "basename (key obj) = ''done''"
  then show "sync_entry target obj w = (w, None)" by (rule sync_entry_done)
next
  assume d: "DownloadFile k p \<in> set (new_events w (fst (download_latest dest_folder bucket w)))"
  obtain w' r where run: "download_latest dest_folder bucket w = (w', r)"
    by (cases "download_latest dest_folder bucket w")
  from download_latest_trace [OF run] obtain evs where
    "trace w' = trace w @ evs"
    "\<forall>k p. DownloadFile k p \<in> set evs \<longrightarrow> basename k \<noteq> ''done''"
    by blast
  with d run show "basename k \<noteq> ''done''" by (auto simp: new_events_def)
qed

theorem done_marker_not_downloaded_witness:
  "basename (key (empty_object ''hotels/20230101/done'')) = ''done''
   \<and> sync_entry ''/data/hotels/20230101'' (empty_object ''hotels/20230101/done'') fresh_disk
       = (fresh_disk, None)
   \<and> DownloadFile ''hotels/20230101/rooms.json'' ''/data/hotels/20230101/rooms.json_tmp''
       \<in> set (new_events fresh_disk (fst (download_latest ''/data'' complete_dump fresh_disk)))
   \<and> basename ''hotels/20230101/rooms.json'' \<noteq> ''done''
   \<and> DownloadFile ''hotels/20230101/done'' ''/data/hotels/20230101/done_tmp''
       \<notin> set (new_events fresh_disk (fst (download_latest ''/data'' complete_dump fresh_disk)))"
proof -
  have b: "basename (key (empty_object ''hotels/20230101/done'')) = ''done''"
    by (simp add: basename_def empty_object_def)
  have d: "DownloadFile ''hotels/20230101/rooms.json'' ''/data/hotels/20230101/rooms.json_tmp''
       \<in> set (new_events fresh_disk (fst (download_latest ''/data'' complete_dump fresh_disk)))"
    unfolding run_complete_dump new_events_def by (simp add: fresh_disk_def)
  have n: "basename ''hotels/20230101/done'' = ''done''"
    by (simp add: basename_def)
  note thm1 = done_marker_not_downloaded
      [of "empty_object ''hotels/20230101/done''" "''/data/hotels/20230101''" fresh_disk
          "''hotels/20230101/rooms.json''" "''/data/hotels/20230101/rooms.json_tmp''"
          "''/data''" complete_dump]
  note thm2 = done_marker_not_downloaded
      [of "empty_object ''hotels/20230101/done''" "''/data/hotels/20230101''" fresh_disk
          "''hotels/20230101/done''" "''/data/hotels/20230101/done_tmp''"
          "''/data''" complete_dump]
  show ?thesis using b d n thm1 thm2 by blast
qed

lemma sync_entry_mismatch:
  assumes "basename (key obj) \<noteq> ''done''"
    and "\<not> os_path_exists w (local_path_of target obj)"
    and "body obj = Some content"
    and "fs w (local_tmp_path_of target obj) \<noteq> Some Dir"
    and "expected_e_tag (md5_hex content) \<noteq> e_tag obj"
  shows "sync_entry target obj w =
           (emit (Md5File (local_tmp_path_of target obj))
              (emit (DownloadFile (key obj) (local_tmp_path_of target obj)) w)
                \<lparr>fs := (fs w)(local_tmp_path_of target obj \<mapsto> File content)\<rparr>,
            Some ChecksumMismatch)"
  using assms
  by (simp add: sync_entry_def local_path_of_def local_tmp_path_of_def Let_def
        download_file_def md5_def md5_loop_append hashlib_md5_def md5_hexdigest_def emit_def)

lemma sync_entry_mismatch_state:
  assumes "sync_entry target obj w = (w', Some ChecksumMismatch)"
  shows "\<exists>content. body obj = Some content
           \<and> expected_e_tag (md5_hex content) \<noteq> e_tag obj
           \<and> fs w' (local_tmp_path_of target obj) = Some (File content)
           \<and> fs w' (local_path_of target obj) = None
           \<and> trace w' = trace w @ [DownloadFile (key obj) (local_tmp_path_of target obj),
                                    Md5File (local_tmp_path_of target obj)]"
  using assms
  by (auto simp: sync_entry_def local_path_of_def local_tmp_path_of_def Let_def
        download_file_def md5_def md5_loop_append hashlib_md5_def md5_hexdigest_def emit_def
        os_rename_def os_path_exists_def
      split: if_splits option.splits node.splits)

lemma sync_loop_mismatch_state:
  assumes "sync_loop target objs w = (w', Some ChecksumMismatch)"
  shows "\<exists>obj \<in> set objs. \<exists>content evs. body obj = Some content
           \<and> expected_e_tag (md5_hex content) \<noteq> e_tag obj
           \<and> fs w' (local_tmp_path_of target obj) = Some (File content)
           \<and> fs w' (local_path_of target obj) = None
           \<and> trace w' = trace w @ evs @ [DownloadFile (key obj) (local_tmp_path_of target obj),
                                           Md5File (local_tmp_path_of target obj)]"
  using assms
proof (induction objs arbitrary: w)
  case Nil
  then show ?case by simp
next
  case (Cons obj objs)
  obtain w1 r1 where e: "sync_entry target obj w = (w1, r1)" by (cases "sync_entry target obj w")
  show ?case
  proof (cases r1)
    case (Some err)
    with Cons.prems e have "sync_entry target obj w = (w', Some ChecksumMismatch)" by simp
    from sync_entry_mismatch_state [OF this] obtain content where
      "body obj = Some content" "expected_e_tag (md5_hex content) \<noteq> e_tag obj"
      "fs w' (local_tmp_path_of target obj) = Some (File content)"
      "fs w' (local_path_of target obj) = None"
      "trace w' = trace w @ [] @ [DownloadFile (key obj) (local_tmp_path_of target obj),
                                    Md5File (local_tmp_path_of target obj)]"
      by auto
    then show ?thesis by (intro bexI [of _ obj] exI conjI) simp_all
  next
    case None
    with Cons.prems e have "sync_loop target objs w1 = (w', Some ChecksumMismatch)" by simp
    from Cons.IH [OF this] obtain o2 content evs where
      o2: "o2 \<in> set objs" and
      f: "body o2 = Some content" "expected_e_tag (md5_hex content) \<noteq> e_tag o2"
         "fs w' (local_tmp_path_of target o2) = Some (File content)"
         "fs w' (local_path_of target o2) = None" and
      t: "trace w' = trace w1 @ evs @ [DownloadFile (key o2) (local_tmp_path_of target o2),
                                           Md5File (local_tmp_path_of target o2)]"
      by blast
    from sync_entry_trace [OF e] obtain evs1 where "trace w1 = trace w @ evs1" by blast
    with t have "trace w' = trace w @ (evs1 @ evs) @ [DownloadFile (key o2) (local_tmp_path_of target o2),
                                           Md5File (local_tmp_path_of target o2)]"
      by simp
    with o2 f show ?thesis by (intro bexI [of _ o2] exI conjI) simp_all
  qed
qed

lemma download_latest_mismatch_state:
  assumes "download_latest dest_folder bucket w = (w', Some ChecksumMismatch)"
  shows "\<exists>latest_date. \<exists>obj \<in> set bucket. \<exists>content evs.
           body obj = Some content
           \<and> expected_e_tag (md5_hex content) \<noteq> e_tag obj
           \<and> fs w' (local_tmp_path_of (target_folder_of dest_folder latest_date) obj)
               = Some (File content)
           \<and> fs w' (local_path_of (target_folder_of dest_folder latest_date) obj) = None
           \<and> trace w' = trace w @ evs
               @ [DownloadFile (key obj)
                    (local_tmp_path_of (target_folder_of dest_folder latest_date) obj),
                  Md5File (local_tmp_path_of (target_folder_of dest_folder latest_date) obj)]"
proof (cases "latest_date_loop None (snd (objects_filter ''hotels/'' bucket w))")
  case None
  with assms show ?thesis by (simp add: download_latest_def objects_filter_def)
next
  case (Some latest_date)
  define target where "target = target_folder_of dest_folder latest_date"
  define w3 where "w3 = emit (ListObjects (''hotels/'' @ latest_date))
          (if \<not> os_path_exists (emit (ListObjects ''hotels/'') w) target
           then os_makedirs target (emit (ListObjects ''hotels/'') w)
           else emit (ListObjects ''hotels/'') w)"
  define files where "files = snd (objects_filter (''hotels/'' @ latest_date) bucket w)"
  have run: "sync_loop target files w3 = (w', Some ChecksumMismatch)"
    using assms unfolding download_latest_Some [OF Some] target_def w3_def files_def .
  have sub: "set files \<subseteq> set bucket" by (auto simp: files_def objects_filter_def)
  obtain pre where pre: "trace w3 = trace w @ pre"
    by (cases "os_path_exists (emit (ListObjects ''hotels/'') w) target")
       (simp_all add: w3_def emit_def os_makedirs_def)
  from sync_loop_mismatch_state [OF run] obtain obj content evs where
    o: "obj \<in> set files" and
    f: "body obj = Some content" "expected_e_tag (md5_hex content) \<noteq> e_tag obj"
       "fs w' (local_tmp_path_of target obj) = Some (File content)"
       "fs w' (local_path_of target obj) = None" and
    t: "trace w' = trace w3 @ evs @ [DownloadFile (key obj) (local_tmp_path_of target obj),
                                      Md5File (local_tmp_path_of target obj)]"
    by blast
  have t': "trace w' = trace w @ (pre @ evs) @ [DownloadFile (key obj) (local_tmp_path_of target obj),
                                      Md5File (local_tmp_path_of target obj)]"
    using t pre by simp
  from o sub have "obj \<in> set bucket" by blast
  with f t' show ?thesis unfolding target_def by blast
qed

lemma run_scenario_c:
  "download_latest ''/data'' scenario_c fresh_disk =
     (\<lparr>fs = [''/data'' \<mapsto> Dir, ''/data/hotels/20230101'' \<mapsto> Dir,
              ''/data/hotels/20230101/20230101'' \<mapsto> File [],
              ''/data/hotels/20230101/reviews.json_tmp'' \<mapsto> File []],
       trace = [ListObjects ''hotels/'', MakeDirs ''/data/hotels/20230101'',
                ListObjects ''hotels/20230101'',
                DownloadFile ''hotels/20230101'' ''/data/hotels/20230101/20230101_tmp'',
                Md5File ''/data/hotels/20230101/20230101_tmp'',
                Rename ''/data/hotels/20230101/20230101_tmp'' ''/data/hotels/20230101/20230101'',
                DownloadFile ''hotels/20230101/reviews.json''
                  ''/data/hotels/20230101/reviews.json_tmp'',
                Md5File ''/data/hotels/20230101/reviews.json_tmp'']\<rparr>,
      Some ChecksumMismatch)"
  by (simp add: run_simps scenario_c_def corrupt_reviews_def)

text \<open>
  C5. When the loop reaches an entry that is to be downloaded and the quoted MD5 of what
  the download delivered differs from the entry's e-tag, the loop stops there with the
  checksum error: the world it returns holds the downloaded bytes at the \<^verbatim>\<open>_tmp\<close> path,
  and the remaining entries are not processed. Conversely, whenever \<open>download_latest\<close>
  ends with the checksum error, some entry of the bucket has its downloaded bytes at its
  \<^verbatim>\<open>_tmp\<close> path with a digest that differs from its e-tag, there is no file at its
  final path, and the last two events of the run are that download and that hash: no
  rename and no removal follows.
\<close>

theorem checksum_mismatch_aborts:
  "(basename (key obj) \<noteq> ''done''
      \<and> \<not> os_path_exists w (local_path_of target obj)
      \<and> body obj = Some content
      \<and> fs w (local_tmp_path_of target obj) \<noteq> Some Dir
      \<and> expected_e_tag (md5_hex content) \<noteq> e_tag obj
    \<longrightarrow> sync_loop target (obj # rest) w =
          (emit (Md5File (local_tmp_path_of target obj))
             (emit (DownloadFile (key obj) (local_tmp_path_of target obj)) w)
               \<lparr>fs := (fs w)(local_tmp_path_of target obj \<mapsto> File content)\<rparr>,
           Some ChecksumMismatch))
   \<and> (download_latest dest_folder bucket w = (w', Some ChecksumMismatch)
    \<longrightarrow> (\<exists>latest_date. \<exists>obj \<in> set bucket. \<exists>content evs.
           body obj = Some content
           \<and> expected_e_tag (md5_hex content) \<noteq> e_tag obj
           \<and> fs w' (local_tmp_path_of (target_folder_of dest_folder latest_date) obj)
               = Some (File content)
           \<and> fs w' (local_path_of (target_folder_of dest_folder latest_date) obj) = None
           \<and> trace w' = trace w @ evs
               @ [DownloadFile (key obj)
                    (local_tmp_path_of (target_folder_of dest_folder latest_date) obj),
                  Md5File (local_tmp_path_of (target_folder_of dest_folder latest_date) obj)]))"
proof (intro conjI impI)
  assume "basename (key obj) \<noteq> ''done''
      \<and> \<not> os_path_exists w (local_path_of target obj)
      \<and> body obj = Some content
      \<and> fs w (local_tmp_path_of target obj) \<noteq> Some Dir
      \<and> expected_e_tag (md5_hex content) \<noteq> e_tag obj"
  then have "sync_entry target obj w =
           (emit (Md5File (local_tmp_path_of target obj))
              (emit (DownloadFile (key obj) (local_tmp_path_of target obj)) w)
                \<lparr>fs := (fs w)(local_tmp_path_of target obj \<mapsto> File content)\<rparr>,
            Some ChecksumMismatch)"
    by (intro sync_entry_mismatch) simp_all
  then show "sync_loop target (obj # rest) w =
          (emit (Md5File (local_tmp_path_of target obj))
             (emit (DownloadFile (key obj) (local_tmp_path_of target obj)) w)
               \<lparr>fs := (fs w)(local_tmp_path_of target obj \<mapsto> File content)\<rparr>,
           Some ChecksumMismatch)"
    by simp
next
  assume "download_latest dest_folder bucket w = (w', Some ChecksumMismatch)"
  then show "\<exists>latest_date. \<exists>obj \<in> set bucket. \<exists>content evs.
           body obj = Some content
           \<and> expected_e_tag (md5_hex content) \<noteq> e_tag obj
           \<and> fs w' (local_tmp_path_of (target_folder_of dest_folder latest_date) obj)
               = Some (File content)
           \<and> fs w' (local_path_of (target_folder_of dest_folder latest_date) obj) = None
           \<and> trace w' = trace w @ evs
               @ [DownloadFile (key obj)
                    (local_tmp_path_of (target_folder_of dest_folder latest_date) obj),
                  Md5File (local_tmp_path_of (target_folder_of dest_folder latest_date) obj)]"
    by (rule download_latest_mismatch_state)
qed

theorem checksum_mismatch_aborts_witness:
  "basename (key corrupt_reviews) \<noteq> ''done''
   \<and> \<not> os_path_exists fresh_disk (local_path_of ''/data/hotels/20230101'' corrupt_reviews)
   \<and> body corrupt_reviews = Some []
   \<and> fs fresh_disk (local_tmp_path_of ''/data/hotels/20230101'' corrupt_reviews) \<noteq> Some Dir
   \<and> expected_e_tag (md5_hex []) \<noteq> e_tag corrupt_reviews
   \<and> sync_loop ''/data/hotels/20230101'' [corrupt_reviews, empty_object ''hotels/20230101/z''] fresh_disk =
       (\<lparr>fs = [''/data'' \<mapsto> Dir, ''/data/hotels/20230101/reviews.json_tmp'' \<mapsto> File []],
         trace = [DownloadFile ''hotels/20230101/reviews.json''
                    ''/data/hotels/20230101/reviews.json_tmp'',
                  Md5File ''/data/hotels/20230101/reviews.json_tmp'']\<rparr>,
        Some ChecksumMismatch)
   \<and> snd (download_latest ''/data'' scenario_c fresh_disk) = Some ChecksumMismatch
   \<and> fs (fst (download_latest ''/data'' scenario_c fresh_disk))
        ''/data/hotels/20230101/reviews.json_tmp'' = Some (File [])
   \<and> fs (fst (download_latest ''/data'' scenario_c fresh_disk))
        ''/data/hotels/20230101/reviews.json'' = None
   \<and> (\<exists>latest_date. \<exists>obj \<in> set scenario_c. \<exists>content evs.
         body obj = Some content
         \<and> expected_e_tag (md5_hex content) \<noteq> e_tag obj
         \<and> fs (fst (download_latest ''/data'' scenario_c fresh_disk))
              (local_tmp_path_of (target_folder_of ''/data'' latest_date) obj)
             = Some (File content)
         \<and> fs (fst (download_latest ''/data'' scenario_c fresh_disk))
              (local_path_of (target_folder_of ''/data'' latest_date) obj) = None
         \<and> trace (fst (download_latest ''/data'' scenario_c fresh_disk))
             = trace fresh_disk @ evs
               @ [DownloadFile (key obj)
                    (local_tmp_path_of (target_folder_of ''/data'' latest_date) obj),
                  Md5File (local_tmp_path_of (target_folder_of ''/data'' latest_date) obj)])"
proof -
  have h1: "basename (key corrupt_reviews) \<noteq> ''done''"
    by (simp add: corrupt_reviews_def basename_def)
  have h2: "\<not> os_path_exists fresh_disk (local_path_of ''/data/hotels/20230101'' corrupt_reviews)"
    by (simp add: corrupt_reviews_def basename_def os_path_exists_def fresh_disk_def
          local_path_of_def os_path_join_def)
  have h3: "body corrupt_reviews = Some []"
    by (simp add: corrupt_reviews_def)
  have h4: "fs fresh_disk (local_tmp_path_of ''/data/hotels/20230101'' corrupt_reviews) \<noteq> Some Dir"
    by (simp add: corrupt_reviews_def basename_def fresh_disk_def local_tmp_path_of_def
          local_path_of_def os_path_join_def)
  have h5: "expected_e_tag (md5_hex []) \<noteq> e_tag corrupt_reviews"
    by (simp add: corrupt_reviews_def wrong_e_tag_def expected_e_tag_def md5_hex_empty)
  have h6: "download_latest ''/data'' scenario_c fresh_disk
              = (fst (download_latest ''/data'' scenario_c fresh_disk), Some ChecksumMismatch)"
    by (simp add: run_scenario_c)
  note inst = checksum_mismatch_aborts
      [where obj = corrupt_reviews and w = fresh_disk and target = "''/data/hotels/20230101''"
         and content = "[]" and rest = "[empty_object ''hotels/20230101/z'']"
         and dest_folder = "''/data''" and bucket = scenario_c
         and w' = "fst (download_latest ''/data'' scenario_c fresh_disk)"]
  have a: "sync_loop ''/data/hotels/20230101'' [corrupt_reviews, empty_object ''hotels/20230101/z''] fresh_disk =
       (\<lparr>fs = [''/data'' \<mapsto> Dir, ''/data/hotels/20230101/reviews.json_tmp'' \<mapsto> File []],
         trace = [DownloadFile ''hotels/20230101/reviews.json''
                    ''/data/hotels/20230101/reviews.json_tmp'',
                  Md5File ''/data/hotels/20230101/reviews.json_tmp'']\<rparr>,
        Some ChecksumMismatch)"
    using inst h1 h2 h3 h4 h5
    by (simp add: corrupt_reviews_def basename_def fresh_disk_def local_tmp_path_of_def
          local_path_of_def os_path_join_def emit_def)
  have b: "snd (download_latest ''/data'' scenario_c fresh_disk) = Some ChecksumMismatch"
    "fs (fst (download_latest ''/data'' scenario_c fresh_disk))
        ''/data/hotels/20230101/reviews.json_tmp'' = Some (File [])"
    "fs (fst (download_latest ''/data'' scenario_c fresh_disk))
        ''/data/hotels/20230101/reviews.json'' = None"
    by (simp_all add: run_scenario_c)
  show ?thesis using h1 h2 h3 h4 h5 a b inst h6 by blast
qed

subsection \<open>The integrity check\<close>

lemma md5_hex_collision_a: "md5_hex collision_a = ''008ee33a9d58b51cfeb425b0959121c9''"
  by code_simp

lemma md5_hex_collision_b: "md5_hex collision_b = ''008ee33a9d58b51cfeb425b0959121c9''"
  by code_simp

lemma collision_differ: "collision_a \<noteq> collision_b"
  by (simp add: collision_a_def collision_b_def)

lemma expected_e_tag_inject: "expected_e_tag d = expected_e_tag d' \<longleftrightarrow> d = d'"
  by (simp add: expected_e_tag_def)

text \<open>
  C4, as the claim states it, fails: the check accepts the file \<open>collision_a\<close> against
  the e-tag of a remote object whose bytes are \<open>collision_b\<close>, a different file with
  the same MD5. When the download of such an object delivers \<open>collision_a\<close>, the loop
  body verifies it and renames it into place.
\<close>

theorem verifier_accepts_different_file:
  "fs \<lparr>fs = [''a'' \<mapsto> File collision_a], trace = []\<rparr> ''a'' = Some (File collision_a)
   \<and> snd (md5 ''a'' \<lparr>fs = [''a'' \<mapsto> File collision_a], trace = []\<rparr>)
       = Inr ''008ee33a9d58b51cfeb425b0959121c9''
   \<and> expected_e_tag ''008ee33a9d58b51cfeb425b0959121c9'' = expected_e_tag (md5_hex collision_b)
   \<and> collision_a \<noteq> collision_b
   \<and> sync_entry ''/data/hotels/20230101''
        \<lparr>key = ''hotels/20230101/rooms.json'', e_tag = expected_e_tag (md5_hex collision_b),
          body = Some collision_a\<rparr> fresh_disk
       = (\<lparr>fs = [''/data'' \<mapsto> Dir, ''/data/hotels/20230101/rooms.json'' \<mapsto> File collision_a],
           trace = [DownloadFile ''hotels/20230101/rooms.json''
                      ''/data/hotels/20230101/rooms.json_tmp'',
                    Md5File ''/data/hotels/20230101/rooms.json_tmp'',
                    Rename ''/data/hotels/20230101/rooms.json_tmp''
                      ''/data/hotels/20230101/rooms.json'']\<rparr>,
          None)"
proof -
  have "sync_entry ''/data/hotels/20230101''
        \<lparr>key = ''hotels/20230101/rooms.json'', e_tag = expected_e_tag (md5_hex collision_b),
          body = Some collision_a\<rparr> fresh_disk
       = (\<lparr>fs = [''/data'' \<mapsto> Dir, ''/data/hotels/20230101/rooms.json'' \<mapsto> File collision_a],
           trace = [DownloadFile ''hotels/20230101/rooms.json''
                      ''/data/hotels/20230101/rooms.json_tmp'',
                    Md5File ''/data/hotels/20230101/rooms.json_tmp'',
                    Rename ''/data/hotels/20230101/rooms.json_tmp''
                      ''/data/hotels/20230101/rooms.json'']\<rparr>,
          None)"
    by (simp add: sync_entry_def basename_def os_path_join_def os_path_exists_def fresh_disk_def
          download_file_def emit_def md5_def md5_loop_append hashlib_md5_def md5_hexdigest_def
          md5_hex_collision_a md5_hex_collision_b os_rename_def Let_def)
  then show ?thesis
    by (simp add: md5_of_file md5_hex_collision_a md5_hex_collision_b collision_differ)
qed

text \<open>
  C4, amended. For a local file the hash is computed, and its quoted form equals the
  quoted MD5 of the remote bytes exactly when the two MD5 digests are equal. Identical
  contents always match, and a mismatch shows that the contents differ.
\<close>

theorem verifier_compares_digests:
  "fs w path = Some (File local) \<longrightarrow>
     (\<exists>digest. snd (md5 path w) = Inr digest
        \<and> ((expected_e_tag digest = expected_e_tag (md5_hex remote))
             = (md5_hex local = md5_hex remote))
        \<and> (local = remote \<longrightarrow> expected_e_tag digest = expected_e_tag (md5_hex remote))
        \<and> (expected_e_tag digest \<noteq> expected_e_tag (md5_hex remote) \<longrightarrow> local \<noteq> remote))"
  by (auto simp: md5_of_file expected_e_tag_inject)

theorem verifier_compares_digests_witness:
  "fs \<lparr>fs = [''a'' \<mapsto> File []], trace = []\<rparr> ''a'' = Some (File [])
   \<and> snd (md5 ''a'' \<lparr>fs = [''a'' \<mapsto> File []], trace = []\<rparr>)
       = Inr ''d41d8cd98f00b204e9800998ecf8427e''
   \<and> expected_e_tag ''d41d8cd98f00b204e9800998ecf8427e'' = expected_e_tag (md5_hex [])
   \<and> expected_e_tag ''d41d8cd98f00b204e9800998ecf8427e'' \<noteq> expected_e_tag (md5_hex collision_a)
   \<and> [] \<noteq> collision_a"
  using verifier_compares_digests [of "\<lparr>fs = [''a'' \<mapsto> File []], trace = []\<rparr>" "''a''" "[]" "[]"]
        verifier_compares_digests [of "\<lparr>fs = [''a'' \<mapsto> File []], trace = []\<rparr>" "''a''" "[]" collision_a]
        md5_hex_empty md5_hex_collision_a
  by (auto simp: expected_e_tag_inject collision_a_def)

subsection \<open>Temporary names that are also final names\<close>

text \<open>
  The temporary file of an entry is its final path followed by \<^verbatim>\<open>_tmp\<close>. When the
  listing holds both \<^verbatim>\<open>rooms.json\<close> and \<^verbatim>\<open>rooms.json_tmp\<close>, the temporary file of the
  first is the final file of the second. The three evaluations below run the code on
  such a dump.
\<close>

lemma md5_hex_o: "md5_hex [0x6f] = ''d95679752134a2d9eb61dbd7b91c4bcc''"
  by code_simp

lemma run_clash_corrupt_fresh:
  "download_latest ''/data'' clash_dump_corrupt fresh_disk =
     (\<lparr>fs = [''/data'' \<mapsto> Dir, ''/data/hotels/20230101'' \<mapsto> Dir,
              ''/data/hotels/20230101/20230101'' \<mapsto> File [],
              ''/data/hotels/20230101/rooms.json_tmp'' \<mapsto> File []],
       trace = [ListObjects ''hotels/'', MakeDirs ''/data/hotels/20230101'',
                ListObjects ''hotels/20230101'',
                DownloadFile ''hotels/20230101'' ''/data/hotels/20230101/20230101_tmp'',
                Md5File ''/data/hotels/20230101/20230101_tmp'',
                Rename ''/data/hotels/20230101/20230101_tmp'' ''/data/hotels/20230101/20230101'',
                DownloadFile ''hotels/20230101/rooms.json''
                  ''/data/hotels/20230101/rooms.json_tmp'',
                Md5File ''/data/hotels/20230101/rooms.json_tmp'']\<rparr>,
      Some ChecksumMismatch)"
  by (simp add: run_simps clash_dump_corrupt_def corrupt_rooms_def rooms_tmp_object_def)

text \<open>
  C3. The claim asks for no download and no verification of an entry whose final path
  exists before the run. The loop body does skip an entry whose final path exists when
  the loop reaches it (\<open>sync_entry_exists\<close>), but the file may be gone by then. Here a
  first run has stopped on a checksum error at \<^verbatim>\<open>rooms.json\<close>, leaving
  \<^verbatim>\<open>rooms.json_tmp\<close> on disk, which is the final path of the entry
  \<^verbatim>\<open>rooms.json_tmp\<close>. The second run downloads \<^verbatim>\<open>rooms.json\<close> over that path, renames
  it away, and then downloads and verifies the entry \<^verbatim>\<open>rooms.json_tmp\<close>.
\<close>

theorem rerun_downloads_existing_entry:
  "fs (fst (download_latest ''/data'' clash_dump_corrupt fresh_disk)) = fs interrupted_disk
   \<and> local_path_of (target_folder_of ''/data'' ''20230101'') rooms_tmp_object
       = ''/data/hotels/20230101/rooms.json_tmp''
   \<and> os_path_exists interrupted_disk ''/data/hotels/20230101/rooms.json_tmp''
   \<and> download_latest ''/data'' clash_dump interrupted_disk =
     (\<lparr>fs = [''/data'' \<mapsto> Dir, ''/data/hotels/20230101'' \<mapsto> Dir,
              ''/data/hotels/20230101/20230101'' \<mapsto> File [],
              ''/data/hotels/20230101/rooms.json'' \<mapsto> File [],
              ''/data/hotels/20230101/rooms.json_tmp'' \<mapsto> File [0x6f]],
       trace = [ListObjects ''hotels/'', ListObjects ''hotels/20230101'',
                DownloadFile ''hotels/20230101/rooms.json''
                  ''/data/hotels/20230101/rooms.json_tmp'',
                Md5File ''/data/hotels/20230101/rooms.json_tmp'',
                Rename ''/data/hotels/20230101/rooms.json_tmp''
                  ''/data/hotels/20230101/rooms.json'',
                DownloadFile ''hotels/20230101/rooms.json_tmp''
                  ''/data/hotels/20230101/rooms.json_tmp_tmp'',
                Md5File ''/data/hotels/20230101/rooms.json_tmp_tmp'',
                Rename ''/data/hotels/20230101/rooms.json_tmp_tmp''
                  ''/data/hotels/20230101/rooms.json_tmp'']\<rparr>,
      None)"
proof -
  have "download_latest ''/data'' clash_dump interrupted_disk =
     (\<lparr>fs = [''/data'' \<mapsto> Dir, ''/data/hotels/20230101'' \<mapsto> Dir,
              ''/data/hotels/20230101/20230101'' \<mapsto> File [],
              ''/data/hotels/20230101/rooms.json'' \<mapsto> File [],
              ''/data/hotels/20230101/rooms.json_tmp'' \<mapsto> File [0x6f]],
       trace = [ListObjects ''hotels/'', ListObjects ''hotels/20230101'',
                DownloadFile ''hotels/20230101/rooms.json''
                  ''/data/hotels/20230101/rooms.json_tmp'',
                Md5File ''/data/hotels/20230101/rooms.json_tmp'',
                Rename ''/data/hotels/20230101/rooms.json_tmp''
                  ''/data/hotels/20230101/rooms.json'',
                DownloadFile ''hotels/20230101/rooms.json_tmp''
                  ''/data/hotels/20230101/rooms.json_tmp_tmp'',
                Md5File ''/data/hotels/20230101/rooms.json_tmp_tmp'',
                Rename ''/data/hotels/20230101/rooms.json_tmp_tmp''
                  ''/data/hotels/20230101/rooms.json_tmp'']\<rparr>,
      None)"
    by (simp add: run_simps clash_dump_def rooms_tmp_object_def interrupted_disk_def md5_hex_o)
  moreover have "fs (fst (download_latest ''/data'' clash_dump_corrupt fresh_disk)) = fs interrupted_disk"
    by (simp add: run_clash_corrupt_fresh interrupted_disk_def)
  moreover have "local_path_of (target_folder_of ''/data'' ''20230101'') rooms_tmp_object
       = ''/data/hotels/20230101/rooms.json_tmp''"
    by (simp add: local_path_of_def target_folder_of_def os_path_join_def basename_def
          rooms_tmp_object_def)
  moreover have "os_path_exists interrupted_disk ''/data/hotels/20230101/rooms.json_tmp''"
    by (simp add: os_path_exists_def interrupted_disk_def)
  ultimately show ?thesis by blast
qed

text \<open>
  C9. The claim asks that a file appears at a final path only if it was there before the
  run or was verified before its rename, and that no download is written to a final
  name. Here the run starts on an empty destination folder and stops on a checksum
  error: the bytes of \<^verbatim>\<open>rooms.json\<close>, which failed verification, are then at the final
  path of the entry \<^verbatim>\<open>rooms.json_tmp\<close>, written there by the download itself.
\<close>

theorem unverified_bytes_at_final_path:
  "local_path_of (target_folder_of ''/data'' ''20230101'') rooms_tmp_object
     = ''/data/hotels/20230101/rooms.json_tmp''
   \<and> fs fresh_disk ''/data/hotels/20230101/rooms.json_tmp'' = None
   \<and> download_latest ''/data'' clash_dump_corrupt fresh_disk =
     (\<lparr>fs = [''/data'' \<mapsto> Dir, ''/data/hotels/20230101'' \<mapsto> Dir,
              ''/data/hotels/20230101/20230101'' \<mapsto> File [],
              ''/data/hotels/20230101/rooms.json_tmp'' \<mapsto> File []],
       trace = [ListObjects ''hotels/'', MakeDirs ''/data/hotels/20230101'',
                ListObjects ''hotels/20230101'',
                DownloadFile ''hotels/20230101'' ''/data/hotels/20230101/20230101_tmp'',
                Md5File ''/data/hotels/20230101/20230101_tmp'',
                Rename ''/data/hotels/20230101/20230101_tmp'' ''/data/hotels/20230101/20230101'',
                DownloadFile ''hotels/20230101/rooms.json''
                  ''/data/hotels/20230101/rooms.json_tmp'',
                Md5File ''/data/hotels/20230101/rooms.json_tmp'']\<rparr>,
      Some ChecksumMismatch)"
proof -
  have "local_path_of (target_folder_of ''/data'' ''20230101'') rooms_tmp_object
       = ''/data/hotels/20230101/rooms.json_tmp''"
    by (simp add: local_path_of_def target_folder_of_def os_path_join_def basename_def
          rooms_tmp_object_def)
  moreover have "fs fresh_disk ''/data/hotels/20230101/rooms.json_tmp'' = None"
    by (simp add: fresh_disk_def)
  ultimately show ?thesis using run_clash_corrupt_fresh by blast
qed

text \<open>
  C10. The claim asks that a run never overwrites or deletes a file that exists at a
  final path. Here the final file of the entry \<^verbatim>\<open>rooms.json_tmp\<close> exists before the
  run, with the bytes of its object; the run downloads \<^verbatim>\<open>rooms.json\<close> over it and
  stops on a checksum error, so the file now holds the unverified bytes of another
  object.
\<close>

theorem existing_final_file_overwritten:
  "local_path_of (target_folder_of ''/data'' ''20230101'') rooms_tmp_object
     = ''/data/hotels/20230101/rooms.json_tmp''
   \<and> fs partial_disk ''/data/hotels/20230101/rooms.json_tmp'' = Some (File [0x6f])
   \<and> download_latest ''/data'' clash_dump_corrupt partial_disk =
     (\<lparr>fs = [''/data'' \<mapsto> Dir, ''/data/hotels/20230101'' \<mapsto> Dir,
              ''/data/hotels/20230101/20230101'' \<mapsto> File [],
              ''/data/hotels/20230101/rooms.json_tmp'' \<mapsto> File []],
       trace = [ListObjects ''hotels/'', ListObjects ''hotels/20230101'',
                DownloadFile ''hotels/20230101/rooms.json''
                  ''/data/hotels/20230101/rooms.json_tmp'',
                Md5File ''/data/hotels/20230101/rooms.json_tmp'']\<rparr>,
      Some ChecksumMismatch)"
proof -
  have "download_latest ''/data'' clash_dump_corrupt partial_disk =
     (\<lparr>fs = [''/data'' \<mapsto> Dir, ''/data/hotels/20230101'' \<mapsto> Dir,
              ''/data/hotels/20230101/20230101'' \<mapsto> File [],
              ''/data/hotels/20230101/rooms.json_tmp'' \<mapsto> File []],
       trace = [ListObjects ''hotels/'', ListObjects ''hotels/20230101'',
                DownloadFile ''hotels/20230101/rooms.json''
                  ''/data/hotels/20230101/rooms.json_tmp'',
                Md5File ''/data/hotels/20230101/rooms.json_tmp'']\<rparr>,
      Some ChecksumMismatch)"
    by (simp add: run_simps clash_dump_corrupt_def corrupt_rooms_def rooms_tmp_object_def
          partial_disk_def)
  moreover have "local_path_of (target_folder_of ''/data'' ''20230101'') rooms_tmp_object
       = ''/data/hotels/20230101/rooms.json_tmp''"
    by (simp add: local_path_of_def target_folder_of_def os_path_join_def basename_def
          rooms_tmp_object_def)
  moreover have "fs partial_disk ''/data/hotels/20230101/rooms.json_tmp'' = Some (File [0x6f])"
    by (simp add: partial_disk_def)
  ultimately show ?thesis by blast
qed

end
